theory Spec2Isabelle
  imports Main "HOL-Library.Word"
begin

section \<open>The Greengrass SDK stub: data model\<close>

text \<open>
  The embedded program is \<^verbatim>\<open>stubs/src/greengrasssdk.c\<close> with its header
  \<^verbatim>\<open>stubs/include/shared/greengrasssdk.h\<close>: nineteen C functions, each of whose bodies is
  the single statement \<^verbatim>\<open>return GGE_SUCCESS;\<close>.

  Conventions of the embedding:
  \<^item> an address (\<^verbatim>\<open>void *\<close>, an out-parameter, an opaque handle) is a 64-bit word, and
    \<^verbatim>\<open>NULL\<close> is the address 0; \<^verbatim>\<open>size_t\<close> is a 64-bit word, \<^verbatim>\<open>uint32_t\<close> a
    32-bit word;
  \<^item> a read-only \<^verbatim>\<open>const char *\<close> argument is passed by value as an optional string:
    \<open>None\<close> is \<^verbatim>\<open>NULL\<close>, \<open>Some ''''\<close> is the empty string;
  \<^item> an enum is a datatype with the header's enumerators in the header's order;
  \<^item> a call takes the process state and yields \<open>Some (code, state')\<close> when it returns
    \<open>code\<close>, and \<open>None\<close> when it does not return (the process exits inside it).
\<close>

type_synonym ptr = "64 word"
type_synonym size_t = "64 word"
type_synonym uint32_t = "32 word"
type_synonym c_string = "string option"

definition NULL :: ptr where
  "NULL = 0"

datatype gg_error =
    GGE_SUCCESS
  | GGE_OUT_OF_MEMORY
  | GGE_INVALID_PARAMETER
  | GGE_INVALID_STATE
  | GGE_INTERNAL_FAILURE
  | GGE_TERMINATE
  | GGE_RESERVED_MAX
  | GGE_RESERVED_PAD

text \<open>\<^verbatim>\<open>typedef struct _gg_request *gg_request;\<close> an opaque handle.\<close>

type_synonym gg_request = ptr

datatype gg_request_status =
    GG_REQUEST_SUCCESS
  | GG_REQUEST_HANDLED
  | GG_REQUEST_UNHANDLED
  | GG_REQUEST_UNKNOWN
  | GG_REQUEST_AGAIN
  | GG_REQUEST_RESERVED_MAX
  | GG_REQUEST_RESERVED_PAD

record gg_request_result =
  request_status :: gg_request_status

record gg_lambda_context =
  function_arn :: c_string
  client_context :: c_string

datatype gg_invoke_type =
    GG_INVOKE_EVENT
  | GG_INVOKE_REQUEST_RESPONSE
  | GG_INVOKE_RESERVED_MAX
  | GG_INVOKE_RESERVED_PAD

text \<open>The one flag of \<^verbatim>\<open>gg_runtime_opt\<close>, a bit of the \<^verbatim>\<open>opt\<close> mask.\<close>

definition GG_RT_OPT_ASYNC :: uint32_t where
  "GG_RT_OPT_ASYNC = 1"

text \<open>
  \<^verbatim>\<open>struct gg_invoke_options\<close>: the header's fields \<^verbatim>\<open>function_arn\<close>,
  \<^verbatim>\<open>customer_context\<close>, \<^verbatim>\<open>qualifier\<close>, \<^verbatim>\<open>type\<close>, \<^verbatim>\<open>payload\<close> and
  \<^verbatim>\<open>payload_size\<close>, in that order. The prefix keeps them apart from the fields of the
  lambda context and from the parameters of the publish functions.
\<close>

record gg_invoke_options =
  invoke_function_arn :: c_string
  invoke_customer_context :: c_string
  invoke_qualifier :: c_string
  invoke_type :: gg_invoke_type
  invoke_payload :: ptr
  invoke_payload_size :: size_t

datatype gg_queue_full_policy_options =
    GG_QUEUE_FULL_POLICY_BEST_EFFORT
  | GG_QUEUE_FULL_POLICY_ALL_OR_ERROR
  | GG_QUEUE_FULL_POLICY_RESERVED_MAX
  | GG_QUEUE_FULL_POLICY_RESERVED_PAD

text \<open>\<^verbatim>\<open>typedef struct _gg_publish_options *gg_publish_options;\<close> an opaque handle.\<close>

type_synonym gg_publish_options = ptr

datatype gg_log_level =
    GG_LOG_RESERVED_NOTSET
  | GG_LOG_DEBUG
  | GG_LOG_INFO
  | GG_LOG_WARN
  | GG_LOG_ERROR
  | GG_LOG_FATAL
  | GG_LOG_RESERVED_MAX
  | GG_LOG_RESERVED_PAD

text \<open>The variadic tail of \<^verbatim>\<open>gg_log\<close>: the values a printf-like format can consume.\<close>

datatype va_arg =
    VA_int "32 word"
  | VA_long "64 word"
  | VA_str c_string
  | VA_ptr ptr

subsection \<open>Process state\<close>

text \<open>
  Everything a call could observe or change: the memory its pointer parameters refer to,
  one typed heap per pointee type, and the messages handed to subscribers so far (topic
  and payload bytes). An address outside the domain of a heap holds no object of that type.
\<close>

record sdk_state =
  request_mem :: "ptr \<rightharpoonup> gg_request"
  size_mem :: "ptr \<rightharpoonup> size_t"
  result_mem :: "ptr \<rightharpoonup> gg_request_result"
  options_mem :: "ptr \<rightharpoonup> gg_publish_options"
  byte_mem :: "ptr \<rightharpoonup> 8 word"
  delivered :: "(string \<times> 8 word list) list"

type_synonym 'a sdk_call = "sdk_state \<Rightarrow> ('a \<times> sdk_state) option"

text \<open>
  \<^verbatim>\<open>typedef void (*gg_lambda_handler)(const gg_lambda_context *cxt);\<close> the customer's code:
  it may change the state, and it may not return.
\<close>

type_synonym gg_lambda_handler = "gg_lambda_context \<Rightarrow> sdk_state \<Rightarrow> sdk_state option"

section \<open>The functions of greengrasssdk.c\<close>

text \<open>Each definition is the C function of the same name, parameters in the C order.\<close>

definition gg_global_init :: "uint32_t \<Rightarrow> gg_error sdk_call" where
  "gg_global_init opt s = Some (GGE_SUCCESS, s)"

definition gg_log :: "gg_log_level \<Rightarrow> c_string \<Rightarrow> va_arg list \<Rightarrow> gg_error sdk_call" where
  "gg_log level format args s = Some (GGE_SUCCESS, s)"

definition gg_request_init :: "ptr \<Rightarrow> gg_error sdk_call" where
  "gg_request_init ggreq s = Some (GGE_SUCCESS, s)"

definition gg_request_close :: "gg_request \<Rightarrow> gg_error sdk_call" where
  "gg_request_close ggreq s = Some (GGE_SUCCESS, s)"

definition gg_request_read :: "gg_request \<Rightarrow> ptr \<Rightarrow> size_t \<Rightarrow> ptr \<Rightarrow> gg_error sdk_call" where
  "gg_request_read ggreq buffer buffer_size amount_read s = Some (GGE_SUCCESS, s)"

definition gg_runtime_start :: "gg_lambda_handler \<Rightarrow> uint32_t \<Rightarrow> gg_error sdk_call" where
  "gg_runtime_start handler opt s = Some (GGE_SUCCESS, s)"

definition gg_lambda_handler_read :: "ptr \<Rightarrow> size_t \<Rightarrow> ptr \<Rightarrow> gg_error sdk_call" where
  "gg_lambda_handler_read buffer buffer_size amount_read s = Some (GGE_SUCCESS, s)"

definition gg_lambda_handler_write_response :: "ptr \<Rightarrow> size_t \<Rightarrow> gg_error sdk_call" where
  "gg_lambda_handler_write_response response response_size s = Some (GGE_SUCCESS, s)"

definition gg_lambda_handler_write_error :: "c_string \<Rightarrow> gg_error sdk_call" where
  "gg_lambda_handler_write_error error_message s = Some (GGE_SUCCESS, s)"

definition gg_get_secret_value ::
  "gg_request \<Rightarrow> c_string \<Rightarrow> c_string \<Rightarrow> c_string \<Rightarrow> ptr \<Rightarrow> gg_error sdk_call" where
  "gg_get_secret_value ggreq secret_id version_id version_stage result s = Some (GGE_SUCCESS, s)"

definition gg_invoke :: "gg_request \<Rightarrow> gg_invoke_options option \<Rightarrow> ptr \<Rightarrow> gg_error sdk_call" where
  "gg_invoke ggreq opts result s = Some (GGE_SUCCESS, s)"

definition gg_publish_options_init :: "ptr \<Rightarrow> gg_error sdk_call" where
  "gg_publish_options_init opts s = Some (GGE_SUCCESS, s)"

definition gg_publish_options_free :: "gg_publish_options \<Rightarrow> gg_error sdk_call" where
  "gg_publish_options_free opts s = Some (GGE_SUCCESS, s)"

definition gg_publish_options_set_queue_full_policy ::
  "gg_publish_options \<Rightarrow> gg_queue_full_policy_options \<Rightarrow> gg_error sdk_call" where
  "gg_publish_options_set_queue_full_policy opts policy s = Some (GGE_SUCCESS, s)"

definition gg_publish_with_options ::
  "gg_request \<Rightarrow> c_string \<Rightarrow> ptr \<Rightarrow> size_t \<Rightarrow> gg_publish_options \<Rightarrow> ptr \<Rightarrow> gg_error sdk_call" where
  "gg_publish_with_options ggreq topic payload payload_size opts result s = Some (GGE_SUCCESS, s)"

definition gg_publish :: "gg_request \<Rightarrow> c_string \<Rightarrow> ptr \<Rightarrow> size_t \<Rightarrow> ptr \<Rightarrow> gg_error sdk_call" where
  "gg_publish ggreq topic payload payload_size result s = Some (GGE_SUCCESS, s)"

definition gg_get_thing_shadow :: "gg_request \<Rightarrow> c_string \<Rightarrow> ptr \<Rightarrow> gg_error sdk_call" where
  "gg_get_thing_shadow ggreq thing_name result s = Some (GGE_SUCCESS, s)"

definition gg_delete_thing_shadow :: "gg_request \<Rightarrow> c_string \<Rightarrow> ptr \<Rightarrow> gg_error sdk_call" where
  "gg_delete_thing_shadow ggreq thing_name result s = Some (GGE_SUCCESS, s)"

definition gg_update_thing_shadow ::
  "gg_request \<Rightarrow> c_string \<Rightarrow> c_string \<Rightarrow> ptr \<Rightarrow> gg_error sdk_call" where
  "gg_update_thing_shadow ggreq thing_name update_payload result s = Some (GGE_SUCCESS, s)"

lemmas sdk_defs =
  gg_global_init_def gg_log_def gg_request_init_def gg_request_close_def gg_request_read_def
  gg_runtime_start_def gg_lambda_handler_read_def gg_lambda_handler_write_response_def
  gg_lambda_handler_write_error_def gg_get_secret_value_def gg_invoke_def
  gg_publish_options_init_def gg_publish_options_free_def
  gg_publish_options_set_queue_full_policy_def gg_publish_with_options_def gg_publish_def
  gg_get_thing_shadow_def gg_delete_thing_shadow_def gg_update_thing_shadow_def

section \<open>Callers\<close>

text \<open>
  A caller that makes one call after another: the second call runs in the state the first
  one left, unless the first did not return. The first call's code is dropped, as in
  \<^verbatim>\<open>f(...); g(...);\<close>.
\<close>

definition then_call :: "('a \<times> sdk_state) option \<Rightarrow> 'b sdk_call \<Rightarrow> ('b \<times> sdk_state) option" where
  "then_call r g = (case r of None \<Rightarrow> None | Some (e, s) \<Rightarrow> g s)"

text \<open>A caller that makes the same call \<open>n\<close> times and keeps the codes it got, oldest first.\<close>

fun repeat_call :: "nat \<Rightarrow> gg_error sdk_call \<Rightarrow> sdk_state \<Rightarrow> (gg_error list \<times> sdk_state) option" where
  "repeat_call 0 f s = Some ([], s)"
| "repeat_call (Suc n) f s =
     (case f s of
        None \<Rightarrow> None
      | Some (e, s') \<Rightarrow>
          (case repeat_call n f s' of
             None \<Rightarrow> None
           | Some (es, s'') \<Rightarrow> Some (e # es, s'')))"

text \<open>What the caller has after a call: the code, and the state, when the call returned.\<close>

definition code_of :: "('a \<times> sdk_state) option \<Rightarrow> 'a option" where
  "code_of r = (case r of None \<Rightarrow> None | Some (e, s) \<Rightarrow> Some e)"

definition state_after :: "('a \<times> sdk_state) option \<Rightarrow> sdk_state option" where
  "state_after r = (case r of None \<Rightarrow> None | Some (e, s) \<Rightarrow> Some s)"

text \<open>
  What the caller reads through its pointers in a state: \<^verbatim>\<open>*ggreq\<close>, \<^verbatim>\<open>*amount_read\<close>,
  \<^verbatim>\<open>*opts\<close> and \<^verbatim>\<open>result->request_status\<close>; \<open>None\<close> where the address holds no such
  object.
\<close>

definition request_at :: "ptr \<Rightarrow> sdk_state \<Rightarrow> gg_request option" where
  "request_at ggreq s = request_mem s ggreq"

definition amount_at :: "ptr \<Rightarrow> sdk_state \<Rightarrow> size_t option" where
  "amount_at amount_read s = size_mem s amount_read"

definition options_at :: "ptr \<Rightarrow> sdk_state \<Rightarrow> gg_publish_options option" where
  "options_at opts s = options_mem s opts"

definition status_at :: "ptr \<Rightarrow> sdk_state \<Rightarrow> gg_request_status option" where
  "status_at result s =
     (case result_mem s result of None \<Rightarrow> None | Some res \<Rightarrow> Some (request_status res))"

subsection \<open>A concrete process state\<close>

text \<open>
  A caller with a request variable at address 32 holding the handle 1, a
  \<^verbatim>\<open>size_t amount_read\<close> at 24 holding 7, two result structs, at 8 (status unknown) and at
  12 (status success), a publish-options variable at 40 holding the handle 2, a four-byte
  buffer at 16, and nothing delivered yet.
\<close>

definition sample_state :: sdk_state where
  "sample_state =
     \<lparr> request_mem = [32 \<mapsto> 1],
       size_mem = [24 \<mapsto> 7],
       result_mem = [8 \<mapsto> \<lparr> request_status = GG_REQUEST_UNKNOWN \<rparr>,
                     12 \<mapsto> \<lparr> request_status = GG_REQUEST_SUCCESS \<rparr>],
       options_mem = [40 \<mapsto> 2],
       byte_mem = [16 \<mapsto> 0, 17 \<mapsto> 0, 18 \<mapsto> 0, 19 \<mapsto> 0],
       delivered = [] \<rparr>"

definition sample_invoke :: gg_invoke_options where
  "sample_invoke =
     \<lparr> invoke_function_arn = Some ''arn:aws:lambda:us-west-2:1:function:f:1'',
       invoke_customer_context = None,
       invoke_qualifier = None,
       invoke_type = GG_INVOKE_REQUEST_RESPONSE,
       invoke_payload = 16,
       invoke_payload_size = 4 \<rparr>"

text \<open>A handler that reports an error to its invoker and does nothing else.\<close>

definition sample_handler :: gg_lambda_handler where
  "sample_handler cxt s =
     (case gg_lambda_handler_write_error (Some ''bad input'') s of
        None \<Rightarrow> None
      | Some (e, s') \<Rightarrow> Some s')"

definition sample_context :: gg_lambda_context where
  "sample_context =
     \<lparr> function_arn = Some ''arn:aws:lambda:us-west-2:1:function:f:1'',
       client_context = Some '''' \<rparr>"

text \<open>
  One invocation as the handler's side sees it: the handler is executed once on the
  context of the invocation. No function of the file makes this call (the body of
  \<open>gg_runtime_start\<close> does not mention its \<^verbatim>\<open>handler\<close>); it stands for the dispatch
  the header expects of the runtime.
\<close>

definition run_handler :: "gg_lambda_handler \<Rightarrow> gg_lambda_context \<Rightarrow> unit sdk_call" where
  "run_handler handler cxt s = (case handler cxt s of None \<Rightarrow> None | Some s' \<Rightarrow> Some ((), s'))"

section \<open>Shared facts\<close>

lemma repeat_call_request_read:
  "repeat_call n (gg_request_read ggreq buffer buffer_size amount_read) s
     = Some (replicate n GGE_SUCCESS, s)"
  by (induction n) (simp_all add: gg_request_read_def)

lemma sample_amount_at: "amount_at 24 sample_state = Some 7"
  by (simp add: amount_at_def sample_state_def)

lemma sample_status_at_8: "status_at 8 sample_state = Some GG_REQUEST_UNKNOWN"
  by (simp add: status_at_def sample_state_def)

lemma sample_status_at_12: "status_at 12 sample_state = Some GG_REQUEST_SUCCESS"
  by (simp add: status_at_def sample_state_def)

section \<open>Every function reports success and does nothing else\<close>

text \<open>
  C1. For every input, each of the nineteen public functions returns \<open>GGE_SUCCESS\<close> and
  leaves the whole process state as it found it.
\<close>

theorem all_functions_return_success:
  "gg_global_init opt s = Some (GGE_SUCCESS, s)
   \<and> gg_log level format args s = Some (GGE_SUCCESS, s)
   \<and> gg_request_init ggreq_p s = Some (GGE_SUCCESS, s)
   \<and> gg_request_close ggreq s = Some (GGE_SUCCESS, s)
   \<and> gg_request_read ggreq buffer buffer_size amount_read s = Some (GGE_SUCCESS, s)
   \<and> gg_runtime_start handler opt s = Some (GGE_SUCCESS, s)
   \<and> gg_lambda_handler_read buffer buffer_size amount_read s = Some (GGE_SUCCESS, s)
   \<and> gg_lambda_handler_write_response response response_size s = Some (GGE_SUCCESS, s)
   \<and> gg_lambda_handler_write_error error_message s = Some (GGE_SUCCESS, s)
   \<and> gg_get_secret_value ggreq secret_id version_id version_stage result s = Some (GGE_SUCCESS, s)
   \<and> gg_invoke ggreq invoke_opts result s = Some (GGE_SUCCESS, s)
   \<and> gg_publish_options_init opts_p s = Some (GGE_SUCCESS, s)
   \<and> gg_publish_options_free opts s = Some (GGE_SUCCESS, s)
   \<and> gg_publish_options_set_queue_full_policy opts policy s = Some (GGE_SUCCESS, s)
   \<and> gg_publish_with_options ggreq topic pl pl_size opts result s = Some (GGE_SUCCESS, s)
   \<and> gg_publish ggreq topic pl pl_size result s = Some (GGE_SUCCESS, s)
   \<and> gg_get_thing_shadow ggreq thing_name result s = Some (GGE_SUCCESS, s)
   \<and> gg_delete_thing_shadow ggreq thing_name result s = Some (GGE_SUCCESS, s)
   \<and> gg_update_thing_shadow ggreq thing_name update_payload result s = Some (GGE_SUCCESS, s)"
  unfolding sdk_defs by simp

section \<open>Request handles\<close>

text \<open>
  C2, as stated, at a concrete input: a request is initialised, the handle 1 is closed,
  and the operations that follow on the closed handle, a read and a second close, both
  return \<open>GGE_SUCCESS\<close>, not \<open>GGE_INVALID_STATE\<close>.
\<close>

theorem closed_handle_counterexample:
  "code_of (then_call (then_call (gg_request_init 32 sample_state) (gg_request_close 1))
              (gg_request_read 1 16 4 24)) = Some GGE_SUCCESS
   \<and> code_of (then_call (then_call (gg_request_init 32 sample_state) (gg_request_close 1))
              (gg_request_close 1)) = Some GGE_SUCCESS"
  by (simp add: then_call_def code_of_def gg_request_init_def gg_request_close_def
      gg_request_read_def)

text \<open>
  C2, amended. For every request handle that has been closed by \<open>gg_request_close\<close>,
  every subsequent operation taking that handle (a read, a second close, secret retrieval,
  invoke, both publishes, the three shadow operations) returns \<open>GGE_SUCCESS\<close>: no
  function keeps a record of closed handles.
\<close>

theorem closed_handle_operations_succeed:
  "code_of (then_call (gg_request_close ggreq s)
      (gg_request_read ggreq buffer buffer_size amount_read)) = Some GGE_SUCCESS
   \<and> code_of (then_call (gg_request_close ggreq s) (gg_request_close ggreq)) = Some GGE_SUCCESS
   \<and> code_of (then_call (gg_request_close ggreq s)
      (gg_get_secret_value ggreq secret_id version_id version_stage result)) = Some GGE_SUCCESS
   \<and> code_of (then_call (gg_request_close ggreq s)
      (gg_invoke ggreq invoke_opts result)) = Some GGE_SUCCESS
   \<and> code_of (then_call (gg_request_close ggreq s)
      (gg_publish_with_options ggreq topic pl pl_size opts result)) = Some GGE_SUCCESS
   \<and> code_of (then_call (gg_request_close ggreq s)
      (gg_publish ggreq topic pl pl_size result)) = Some GGE_SUCCESS
   \<and> code_of (then_call (gg_request_close ggreq s)
      (gg_get_thing_shadow ggreq thing_name result)) = Some GGE_SUCCESS
   \<and> code_of (then_call (gg_request_close ggreq s)
      (gg_delete_thing_shadow ggreq thing_name result)) = Some GGE_SUCCESS
   \<and> code_of (then_call (gg_request_close ggreq s)
      (gg_update_thing_shadow ggreq thing_name update_payload result)) = Some GGE_SUCCESS"
  unfolding sdk_defs by (simp add: then_call_def code_of_def)

text \<open>
  C3. The header gives \<^verbatim>\<open>amount_read\<close> as the destination for the amount of data read
  and asks for \<open>gg_request_read\<close> to be called till that amount is zero. The code at a
  concrete input: in the sample state \<^verbatim>\<open>amount_read\<close> (address 24) holds 7; a request is
  initialised, and a read on its handle 1 returns \<open>GGE_SUCCESS\<close> with 7 still there; no
  number of consecutive reads ends in a state where \<^verbatim>\<open>*amount_read\<close> is 0. The store
  the header documents is missing, and the documented read loop never sees the end of the
  stream.
\<close>

theorem request_read_never_stores_zero:
  "code_of (then_call (gg_request_init 32 sample_state) (gg_request_read 1 16 4 24))
     = Some GGE_SUCCESS
   \<and> map_option (amount_at 24)
        (state_after (then_call (gg_request_init 32 sample_state) (gg_request_read 1 16 4 24)))
      = Some (Some 7)
   \<and> \<not> (\<exists>n codes s0 s'.
        state_after (gg_request_init 32 sample_state) = Some s0
        \<and> repeat_call n (gg_request_read 1 16 4 24) s0 = Some (codes, s')
        \<and> amount_at 24 s' = Some 0)"
  by (simp add: then_call_def code_of_def state_after_def gg_request_init_def
      gg_request_read_def repeat_call_request_read sample_amount_at)

section \<open>Publishing\<close>

text \<open>
  C4. The header has the request status populated by a publish, and under the all-or-error
  policy with \<open>GG_REQUEST_SUCCESS\<close> (delivered to all targets) or \<open>GG_REQUEST_AGAIN\<close>
  (delivered to none). The code at a concrete input: publish options are initialised, the
  all-or-error policy is set on the handle 2, and a payload is published with these options
  and the result struct at address 8, whose status is unknown before. The call returns
  \<open>GGE_SUCCESS\<close> and the status is still unknown: it has been set neither to
  \<open>GG_REQUEST_SUCCESS\<close> nor to \<open>GG_REQUEST_AGAIN\<close>.
\<close>

theorem publish_all_or_error_status_not_set:
  "code_of (then_call (then_call (gg_publish_options_init 40 sample_state)
        (gg_publish_options_set_queue_full_policy 2 GG_QUEUE_FULL_POLICY_ALL_OR_ERROR))
        (gg_publish_with_options 1 (Some ''a/topic'') 16 4 2 8)) = Some GGE_SUCCESS
   \<and> map_option (status_at 8)
        (state_after (then_call (then_call (gg_publish_options_init 40 sample_state)
          (gg_publish_options_set_queue_full_policy 2 GG_QUEUE_FULL_POLICY_ALL_OR_ERROR))
          (gg_publish_with_options 1 (Some ''a/topic'') 16 4 2 8)))
      = Some (Some GG_REQUEST_UNKNOWN)"
  by (simp add: then_call_def code_of_def state_after_def gg_publish_options_init_def
      gg_publish_options_set_queue_full_policy_def gg_publish_with_options_def
      sample_status_at_8)

text \<open>
  C10. \<open>gg_publish\<close> is \<open>gg_publish_with_options\<close> with \<^verbatim>\<open>opts == NULL\<close>: for every request,
  topic, payload, payload size, result pointer and state the two calls yield the same code
  and the same state.
\<close>

theorem publish_is_publish_with_null_options:
  "gg_publish ggreq topic pl pl_size result s
     = gg_publish_with_options ggreq topic pl pl_size NULL result s"
  by (simp add: gg_publish_def gg_publish_with_options_def)

section \<open>The lambda runtime\<close>

text \<open>
  C5. The header notes on \<open>gg_lambda_handler_write_error\<close> that the caller's invoke will
  return \<open>GG_REQUEST_HANDLED\<close> in the result struct instead of \<open>GG_REQUEST_SUCCESS\<close>. The
  code at a concrete input: the runtime is started in synchronous mode (\<^verbatim>\<open>opt\<close> 0) with
  the sample handler, and the start returns at once with \<open>GGE_SUCCESS\<close>; the handler is
  executed once on the sample context, and in that execution it calls
  \<open>gg_lambda_handler_write_error\<close> once, with \<^verbatim>\<open>bad input\<close>, and never
  \<open>gg_lambda_handler_write_response\<close>; the invoker's \<open>gg_invoke\<close>, with the result struct
  at address 12 holding \<open>GG_REQUEST_SUCCESS\<close>, returns \<open>GGE_SUCCESS\<close>, and the status is
  still \<open>GG_REQUEST_SUCCESS\<close>, not \<open>GG_REQUEST_HANDLED\<close>.
\<close>

theorem handler_error_invoke_status_not_set:
  "gg_runtime_start sample_handler 0 sample_state = Some (GGE_SUCCESS, sample_state)
   \<and> run_handler sample_handler sample_context sample_state
      = then_call (gg_lambda_handler_write_error (Some ''bad input'') sample_state)
          (\<lambda>s. Some ((), s))
   \<and> code_of (then_call (then_call (gg_runtime_start sample_handler 0 sample_state)
        (run_handler sample_handler sample_context))
        (gg_invoke 1 (Some sample_invoke) 12)) = Some GGE_SUCCESS
   \<and> map_option (status_at 12)
        (state_after (then_call (then_call (gg_runtime_start sample_handler 0 sample_state)
          (run_handler sample_handler sample_context))
          (gg_invoke 1 (Some sample_invoke) 12)))
      = Some (Some GG_REQUEST_SUCCESS)"
  by (simp add: then_call_def code_of_def state_after_def run_handler_def sample_handler_def
      gg_runtime_start_def gg_lambda_handler_write_error_def gg_invoke_def sample_status_at_12)

text \<open>
  C6, as stated, at a concrete input: in the sample state no runtime was started and no
  invocation is active; a handler read there returns \<open>GGE_SUCCESS\<close>, and so do a response
  written after a response and an error written after a response.
\<close>

theorem handler_sequencing_counterexample:
  "code_of (gg_lambda_handler_read 16 4 24 sample_state) = Some GGE_SUCCESS
   \<and> code_of (then_call (gg_lambda_handler_write_response 16 4 sample_state)
        (gg_lambda_handler_write_response 16 4)) = Some GGE_SUCCESS
   \<and> code_of (then_call (gg_lambda_handler_write_response 16 4 sample_state)
        (gg_lambda_handler_write_error (Some ''late''))) = Some GGE_SUCCESS"
  by (simp add: then_call_def code_of_def gg_lambda_handler_read_def
      gg_lambda_handler_write_response_def gg_lambda_handler_write_error_def)

text \<open>
  C6, amended. In every state, \<open>gg_lambda_handler_write_response\<close> and
  \<open>gg_lambda_handler_write_error\<close> called after a response or an error has already been
  written, and \<open>gg_lambda_handler_read\<close>, \<open>gg_lambda_handler_write_response\<close> and
  \<open>gg_lambda_handler_write_error\<close> called outside an active invocation, return
  \<open>GGE_SUCCESS\<close>: no function keeps track of invocations or of what has been written.
\<close>

theorem handler_calls_succeed_in_any_sequence:
  "code_of (then_call (gg_lambda_handler_write_response response response_size s)
        (gg_lambda_handler_write_response response' response_size')) = Some GGE_SUCCESS
   \<and> code_of (then_call (gg_lambda_handler_write_response response response_size s)
        (gg_lambda_handler_write_error error_message)) = Some GGE_SUCCESS
   \<and> code_of (then_call (gg_lambda_handler_write_error error_message s)
        (gg_lambda_handler_write_response response response_size)) = Some GGE_SUCCESS
   \<and> code_of (then_call (gg_lambda_handler_write_error error_message s)
        (gg_lambda_handler_write_error error_message')) = Some GGE_SUCCESS
   \<and> code_of (gg_lambda_handler_read buffer buffer_size amount_read s) = Some GGE_SUCCESS
   \<and> code_of (gg_lambda_handler_write_response response response_size s) = Some GGE_SUCCESS
   \<and> code_of (gg_lambda_handler_write_error error_message s) = Some GGE_SUCCESS"
  by (simp add: then_call_def code_of_def gg_lambda_handler_read_def
      gg_lambda_handler_write_response_def gg_lambda_handler_write_error_def)

section \<open>Logging\<close>

text \<open>
  C7. The header marks the level \<open>GG_LOG_FATAL\<close> as the one at which the system exits.
  The code at a concrete input: \<open>gg_log\<close> at level \<open>GG_LOG_FATAL\<close> returns to its caller,
  with the code \<open>GGE_SUCCESS\<close> and the state it was called in, as it does at level
  \<open>GG_LOG_ERROR\<close>: the process goes on.
\<close>

theorem log_fatal_returns:
  "gg_log GG_LOG_FATAL (Some ''fatal: %s'') [VA_str (Some ''disk full'')] sample_state
     = Some (GGE_SUCCESS, sample_state)
   \<and> gg_log GG_LOG_ERROR (Some ''fatal: %s'') [VA_str (Some ''disk full'')] sample_state
     = Some (GGE_SUCCESS, sample_state)"
  by (simp add: gg_log_def)

section \<open>Secrets\<close>

text \<open>
  C8, as stated, refuted: there are no request, secret id, other qualifier, result pointer
  and state at which \<^verbatim>\<open>NULL\<close> and the empty string, passed as \<^verbatim>\<open>version_id\<close> or as
  \<^verbatim>\<open>version_stage\<close>, make \<open>gg_get_secret_value\<close> differ in code or in state.
\<close>

theorem secret_qualifier_counterexample:
  "\<not> (\<exists>ggreq secret_id version_stage result s.
        gg_get_secret_value ggreq secret_id None version_stage result s
          \<noteq> gg_get_secret_value ggreq secret_id (Some '''') version_stage result s)
   \<and> \<not> (\<exists>ggreq secret_id version_id result s.
        gg_get_secret_value ggreq secret_id version_id None result s
          \<noteq> gg_get_secret_value ggreq secret_id version_id (Some '''') result s)"
  by (simp add: gg_get_secret_value_def)

text \<open>
  C8, amended. \<open>gg_get_secret_value\<close> does not look at \<^verbatim>\<open>version_id\<close> and
  \<^verbatim>\<open>version_stage\<close>: for all values of the other arguments and every state, the call yields
  the same code and the same state whatever the two qualifiers are, \<^verbatim>\<open>NULL\<close>, the empty
  string or any other text.
\<close>

theorem secret_qualifiers_are_ignored:
  "gg_get_secret_value ggreq secret_id version_id version_stage result s
     = gg_get_secret_value ggreq secret_id version_id' version_stage' result s"
  by (simp add: gg_get_secret_value_def)

section \<open>Out-parameters\<close>

text \<open>
  C9. Every function leaves its out-parameters as they were: \<open>gg_request_init\<close> does not
  write \<^verbatim>\<open>*ggreq\<close>; \<open>gg_request_read\<close> and \<open>gg_lambda_handler_read\<close> write neither
  \<^verbatim>\<open>*amount_read\<close> nor a byte of memory; \<open>gg_publish_options_init\<close> does not write
  \<^verbatim>\<open>*opts\<close>; and the seven operations that take a result pointer do not write
  \<^verbatim>\<open>result->request_status\<close>. Each call returns, and the caller reads what the location
  held before the call.
\<close>

theorem out_parameters_unmodified:
  "map_option (request_at ggreq_p) (state_after (gg_request_init ggreq_p s))
     = Some (request_at ggreq_p s)
   \<and> map_option (amount_at amount_read)
        (state_after (gg_request_read ggreq buffer buffer_size amount_read s))
      = Some (amount_at amount_read s)
   \<and> map_option byte_mem (state_after (gg_request_read ggreq buffer buffer_size amount_read s))
      = Some (byte_mem s)
   \<and> map_option (amount_at amount_read)
        (state_after (gg_lambda_handler_read buffer buffer_size amount_read s))
      = Some (amount_at amount_read s)
   \<and> map_option byte_mem (state_after (gg_lambda_handler_read buffer buffer_size amount_read s))
      = Some (byte_mem s)
   \<and> map_option (options_at opts_p) (state_after (gg_publish_options_init opts_p s))
      = Some (options_at opts_p s)
   \<and> map_option (status_at result) (state_after (gg_invoke ggreq invoke_opts result s))
      = Some (status_at result s)
   \<and> map_option (status_at result) (state_after (gg_publish ggreq topic pl pl_size result s))
      = Some (status_at result s)
   \<and> map_option (status_at result)
        (state_after (gg_publish_with_options ggreq topic pl pl_size opts result s))
      = Some (status_at result s)
   \<and> map_option (status_at result)
        (state_after (gg_get_secret_value ggreq secret_id version_id version_stage result s))
      = Some (status_at result s)
   \<and> map_option (status_at result) (state_after (gg_get_thing_shadow ggreq thing_name result s))
      = Some (status_at result s)
   \<and> map_option (status_at result)
        (state_after (gg_update_thing_shadow ggreq thing_name update_payload result s))
      = Some (status_at result s)
   \<and> map_option (status_at result)
        (state_after (gg_delete_thing_shadow ggreq thing_name result s))
      = Some (status_at result s)"
  unfolding sdk_defs by (simp add: state_after_def)

end
